theory Spec2Isabelle
  imports Complex_Main
begin

section \<open>Data model\<close>

text \<open>
  The ledger of the trading API (\<^verbatim>\<open>api/app/routers/trading.py\<close>,
  \<^verbatim>\<open>api/app/routers/risk.py\<close>, \<^verbatim>\<open>api/app/models\<close>).

  Python's \<^verbatim>\<open>Decimal\<close> values are modelled as exact rationals: the context
  precision of 28 significant digits and the scale of the database columns
  (\<^verbatim>\<open>DECIMAL(15, 2)\<close> and the like, applied when a row is written) are outside
  the model. Primary keys (UUIDs) and timestamps are natural numbers; the value of
  \<^verbatim>\<open>uuid.uuid4()\<close> and of \<^verbatim>\<open>datetime.utcnow()\<close> is a parameter of the
  operation that draws it. The string columns \<^verbatim>\<open>order_type\<close> and
  \<^verbatim>\<open>status\<close> only ever hold the values of the enumerations below.
\<close>

type_synonym uuid = nat
type_synonym decimal = rat
type_synonym datetime = nat

datatype OrderTypeEnum = BUY | SELL | MARKET | LIMIT | STOP_LOSS | TAKE_PROFIT

datatype OrderStatusEnum = PENDING | EXECUTED | CANCELLED | FAILED | PARTIAL

datatype position_status = OPEN | CLOSED

text \<open>The \<^verbatim>\<open>detail\<close> of each \<^verbatim>\<open>HTTPException\<close> the routers raise.\<close>

datatype detail =
    Portfolio_not_found
  | Asset_not_found_or_not_tradeable
  | Price_is_required_for_limit_and_stop_orders
  | Order_value_must_be_at_least
  | Daily_trading_limit_reached
  | Insufficient_portfolio_balance
  | Live_trading_not_yet_implemented
  | Insufficient_position_quantity_for_sell_order
  | Either_amount_eur_or_quantity_must_be_provided
  | Order_not_found
  | Can_only_update_pending_orders
  | Can_only_cancel_pending_orders

text \<open>
  Everything a request handler can raise: an \<^verbatim>\<open>HTTPException\<close> with its status
  code, the request validation of the pydantic models (\<^verbatim>\<open>Field(gt=0)\<close>), the
  two exceptions of \<^verbatim>\<open>scalar_one\<close> and \<^verbatim>\<open>scalar_one_or_none\<close>, a primary
  key already taken at \<^verbatim>\<open>commit\<close>, and a \<^verbatim>\<open>Decimal\<close> division by zero.
\<close>

datatype error =
    HTTPException nat detail
  | RequestValidationError
  | NoResultFound
  | MultipleResultsFound
  | IntegrityError
  | DecimalException

record Portfolio =
  pf_id :: uuid
  pf_user_id :: uuid
  current_balance :: decimal
  total_invested :: decimal
  total_profit_loss :: decimal

record Asset =
  as_id :: uuid
  symbol :: string
  is_active :: bool

record Position =
  pos_portfolio_id :: uuid
  pos_asset_id :: uuid
  pos_quantity :: decimal
  avg_buy_price :: decimal
  current_price :: "decimal option"
  unrealized_pnl :: decimal
  realized_pnl :: decimal
  pos_status :: position_status
  closed_at :: "datetime option"

record Order =
  ord_id :: uuid
  ord_portfolio_id :: uuid
  ord_asset_id :: uuid
  order_type :: OrderTypeEnum
  ord_quantity :: decimal
  price :: "decimal option"
  stop_price :: "decimal option"
  ord_status :: OrderStatusEnum
  executed_quantity :: decimal
  executed_price :: "decimal option"
  created_at :: datetime
  executed_at :: "datetime option"
  cancelled_at :: "datetime option"
  external_order_id :: "uuid option"
  fee_amount :: decimal
  fee_currency :: "string option"

text \<open>The committed tables. A handler that raises leaves them as of its last commit.\<close>

record db =
  portfolios :: "Portfolio list"
  assets :: "Asset list"
  positions :: "Position list"
  orders :: "Order list"

record settings =
  PAPER_TRADING_MODE :: bool
  MAX_DAILY_TRADES :: nat
  MIN_TRADE_AMOUNT :: decimal

text \<open>The defaults of \<^verbatim>\<open>api/app/core/config.py\<close>.\<close>

definition default_settings :: settings where
  "default_settings =
     \<lparr>PAPER_TRADING_MODE = True, MAX_DAILY_TRADES = 50, MIN_TRADE_AMOUNT = 10\<rparr>"

section \<open>Query results\<close>

definition scalar_one_or_none :: "'a list \<Rightarrow> error + 'a option" where
  "scalar_one_or_none rows =
     (case rows of
        [] \<Rightarrow> Inr None
      | [r] \<Rightarrow> Inr (Some r)
      | _ \<Rightarrow> Inl MultipleResultsFound)"

definition scalar_one :: "'a list \<Rightarrow> error + 'a" where
  "scalar_one rows =
     (case rows of
        [] \<Rightarrow> Inl NoResultFound
      | [r] \<Rightarrow> Inr r
      | _ \<Rightarrow> Inl MultipleResultsFound)"

text \<open>Python's \<^verbatim>\<open>x or y\<close> on an optional decimal: \<^verbatim>\<open>None\<close> and zero are falsy.\<close>

definition or_else :: "decimal option \<Rightarrow> decimal \<Rightarrow> decimal" where
  "or_else x y = (case x of None \<Rightarrow> y | Some v \<Rightarrow> if v = 0 then y else v)"

section \<open>Execution and fill application\<close>

text \<open>The dictionary \<^verbatim>\<open>simulate_order_execution\<close> returns.\<close>

record execution_result =
  er_status :: OrderStatusEnum
  er_executed_quantity :: decimal
  er_executed_price :: decimal
  er_fee_amount :: decimal
  er_fee_currency :: string
  er_external_order_id :: uuid
  er_executed_at :: datetime

definition simulate_order_execution ::
  "settings \<Rightarrow> datetime \<Rightarrow> Order \<Rightarrow> error + execution_result" where
  "simulate_order_execution st now ordr =
     (if PAPER_TRADING_MODE st then
        (let execution_price = or_else (price ordr) 45000;
             fee_rate = 15 / 10000;
             fee = ord_quantity ordr * execution_price * fee_rate
         in Inr \<lparr>er_status = EXECUTED,
                 er_executed_quantity = ord_quantity ordr,
                 er_executed_price = execution_price,
                 er_fee_amount = fee,
                 er_fee_currency = ''EUR'',
                 er_external_order_id = ord_id ordr,
                 er_executed_at = now\<rparr>)
      else Inl (HTTPException 501 Live_trading_not_yet_implemented))"

text \<open>
  The filter of the position query: the open position of the order's portfolio and
  asset.
\<close>

definition open_position_of :: "Order \<Rightarrow> Position \<Rightarrow> bool" where
  "open_position_of ordr p \<longleftrightarrow>
     pos_portfolio_id p = ord_portfolio_id ordr \<and>
     pos_asset_id p = ord_asset_id ordr \<and>
     pos_status p = OPEN"

definition portfolio_of :: "Order \<Rightarrow> Portfolio \<Rightarrow> bool" where
  "portfolio_of ordr pf \<longleftrightarrow> pf_id pf = ord_portfolio_id ordr"

text \<open>
  \<^verbatim>\<open>update_position_from_order\<close> works on the objects of the session. The model
  returns what it raised, if anything, with the session as the function left it: the
  rows it changed before raising stay changed there until the caller's rollback.
\<close>

definition update_position_from_order ::
  "Order \<Rightarrow> execution_result \<Rightarrow> datetime \<Rightarrow> db \<Rightarrow> (error + unit) \<times> db" where
  "update_position_from_order ordr er now s =
     (if order_type ordr = BUY then
        (case scalar_one_or_none (filter (open_position_of ordr) (positions s)) of
           Inl e \<Rightarrow> (Inl e, s)
         | Inr found \<Rightarrow>
             (case
                (case found of
                   Some position \<Rightarrow>
                     (let total_cost = pos_quantity position * avg_buy_price position
                            + er_executed_quantity er * er_executed_price er;
                          total_quantity = pos_quantity position + er_executed_quantity er
                      in if total_quantity = 0 then Inl DecimalException
                         else Inr (s\<lparr>positions :=
                           map (\<lambda>p. if open_position_of ordr p
                                     then p\<lparr>avg_buy_price := total_cost / total_quantity,
                                            pos_quantity := total_quantity\<rparr>
                                     else p) (positions s)\<rparr>))
                 | None \<Rightarrow>
                     Inr (s\<lparr>positions := positions s @
                       [\<lparr>pos_portfolio_id = ord_portfolio_id ordr,
                         pos_asset_id = ord_asset_id ordr,
                         pos_quantity = er_executed_quantity er,
                         avg_buy_price = er_executed_price er,
                         current_price = Some (er_executed_price er),
                         unrealized_pnl = 0,
                         realized_pnl = 0,
                         pos_status = OPEN,
                         closed_at = None\<rparr>]\<rparr>))
              of
                Inl e \<Rightarrow> (Inl e, s)
              | Inr s1 \<Rightarrow>
                  (case scalar_one (filter (portfolio_of ordr) (portfolios s1)) of
                     Inl e \<Rightarrow> (Inl e, s1)
                   | Inr portfolio \<Rightarrow>
                       (let total_cost = er_executed_quantity er * er_executed_price er
                              + er_fee_amount er
                        in (Inr (), s1\<lparr>portfolios :=
                              map (\<lambda>pf. if portfolio_of ordr pf
                                        then pf\<lparr>current_balance := current_balance pf - total_cost\<rparr>
                                        else pf) (portfolios s1)\<rparr>)))))
      else if order_type ordr = SELL then
        (case scalar_one_or_none (filter (open_position_of ordr) (positions s)) of
           Inl e \<Rightarrow> (Inl e, s)
         | Inr None \<Rightarrow>
             (Inl (HTTPException 400 Insufficient_position_quantity_for_sell_order), s)
         | Inr (Some position) \<Rightarrow>
             if pos_quantity position < er_executed_quantity er then
               (Inl (HTTPException 400 Insufficient_position_quantity_for_sell_order), s)
             else
               (let sell_proceeds = er_executed_quantity er * er_executed_price er;
                    cost_basis = er_executed_quantity er * avg_buy_price position;
                    realized = sell_proceeds - cost_basis - er_fee_amount er;
                    quantity' = pos_quantity position - er_executed_quantity er;
                    s1 = s\<lparr>positions :=
                           map (\<lambda>p. if open_position_of ordr p
                                     then p\<lparr>pos_quantity := quantity',
                                            realized_pnl := realized_pnl p + realized,
                                            pos_status := (if quantity' = 0 then CLOSED else pos_status p),
                                            closed_at := (if quantity' = 0 then Some now else closed_at p)\<rparr>
                                     else p) (positions s)\<rparr>
                in case scalar_one (filter (portfolio_of ordr) (portfolios s1)) of
                     Inl e \<Rightarrow> (Inl e, s1)
                   | Inr portfolio \<Rightarrow>
                       (Inr (), s1\<lparr>portfolios :=
                          map (\<lambda>pf. if portfolio_of ordr pf
                                    then pf\<lparr>current_balance :=
                                              current_balance pf + (sell_proceeds - er_fee_amount er),
                                            total_profit_loss := total_profit_loss pf + realized\<rparr>
                                    else pf) (portfolios s1)\<rparr>)))
      else (Inr (), s))"

section \<open>Order manager\<close>

definition upper_char :: "char \<Rightarrow> char" where
  "upper_char c =
     (let n = (of_char c :: nat)
      in if 97 \<le> n \<and> n \<le> 122 then char_of (n - 32) else c)"

text \<open>\<^verbatim>\<open>str.upper\<close> on ASCII symbols.\<close>

definition upper :: "string \<Rightarrow> string" where
  "upper str = map upper_char str"

definition get_user_portfolio :: "uuid \<Rightarrow> uuid \<Rightarrow> db \<Rightarrow> error + Portfolio" where
  "get_user_portfolio portfolio_id user_id s =
     (case scalar_one_or_none
        (filter (\<lambda>pf. pf_id pf = portfolio_id \<and> pf_user_id pf = user_id) (portfolios s)) of
        Inl e \<Rightarrow> Inl e
      | Inr None \<Rightarrow> Inl (HTTPException 404 Portfolio_not_found)
      | Inr (Some pf) \<Rightarrow> Inr pf)"

definition get_asset_by_symbol :: "string \<Rightarrow> db \<Rightarrow> error + Asset" where
  "get_asset_by_symbol symb s =
     (case scalar_one_or_none
        (filter (\<lambda>a. symbol a = upper symb \<and> is_active a) (assets s)) of
        Inl e \<Rightarrow> Inl e
      | Inr None \<Rightarrow> Inl (HTTPException 404 Asset_not_found_or_not_tradeable)
      | Inr (Some a) \<Rightarrow> Inr a)"

text \<open>The calendar day of a timestamp counted in seconds.\<close>

definition date :: "datetime \<Rightarrow> nat" where
  "date t = t div 86400"

definition validate_order_limits ::
  "settings \<Rightarrow> datetime \<Rightarrow> Portfolio \<Rightarrow> decimal \<Rightarrow> db \<Rightarrow> error + unit" where
  "validate_order_limits st now portfolio order_value s =
     (if order_value < MIN_TRADE_AMOUNT st then
        Inl (HTTPException 400 Order_value_must_be_at_least)
      else
        (let today = date now;
             daily_trades = length (filter
               (\<lambda>x. ord_portfolio_id x = pf_id portfolio \<and> date (created_at x) = today)
               (orders s))
         in if daily_trades \<ge> MAX_DAILY_TRADES st then
              Inl (HTTPException 429 Daily_trading_limit_reached)
            else if order_value > current_balance portfolio then
              Inl (HTTPException 400 Insufficient_portfolio_balance)
            else Inr ()))"

text \<open>The background task: its body is \<^verbatim>\<open>pass\<close>.\<close>

definition execute_order_async :: "uuid \<Rightarrow> db \<Rightarrow> db" where
  "execute_order_async order_id s = s"

text \<open>
  \<^verbatim>\<open>db.add(order); await db.commit()\<close>: the insert fails when the primary key is
  taken.
\<close>

definition add_order :: "Order \<Rightarrow> db \<Rightarrow> error + db" where
  "add_order ordr s =
     (if ord_id ordr \<in> set (map ord_id (orders s)) then Inl IntegrityError
      else Inr (s\<lparr>orders := orders s @ [ordr]\<rparr>))"

text \<open>The flush of a changed order object: an update by primary key.\<close>

definition save_order :: "Order \<Rightarrow> db \<Rightarrow> db" where
  "save_order ordr s =
     s\<lparr>orders := map (\<lambda>x. if ord_id x = ord_id ordr then ordr else x) (orders s)\<rparr>"

record OrderCreate =
  oc_portfolio_id :: uuid
  oc_asset_symbol :: string
  oc_order_type :: OrderTypeEnum
  oc_quantity :: decimal
  oc_price :: "decimal option"
  oc_stop_price :: "decimal option"

text \<open>\<^verbatim>\<open>Field(gt=0)\<close> on a required and on an optional field.\<close>

definition gt0 :: "decimal \<Rightarrow> bool" where
  "gt0 v \<longleftrightarrow> 0 < v"

definition opt_gt0 :: "decimal option \<Rightarrow> bool" where
  "opt_gt0 x = (case x of None \<Rightarrow> True | Some v \<Rightarrow> 0 < v)"

text \<open>Truth value of an optional decimal.\<close>

definition truthy :: "decimal option \<Rightarrow> bool" where
  "truthy x = (case x of None \<Rightarrow> False | Some v \<Rightarrow> v \<noteq> 0)"

record OrderResponse =
  resp_order :: Order
  resp_asset :: Asset
  remaining_quantity :: decimal
  total_value :: "decimal option"
  fill_percentage :: decimal

definition new_order ::
  "uuid \<Rightarrow> datetime \<Rightarrow> uuid \<Rightarrow> uuid \<Rightarrow> OrderTypeEnum \<Rightarrow> decimal \<Rightarrow> decimal option \<Rightarrow>
   decimal option \<Rightarrow> Order" where
  "new_order new_id now portfolio_id asset_id ty qty pr stop =
     \<lparr>ord_id = new_id,
      ord_portfolio_id = portfolio_id,
      ord_asset_id = asset_id,
      order_type = ty,
      ord_quantity = qty,
      price = pr,
      stop_price = stop,
      ord_status = PENDING,
      executed_quantity = 0,
      executed_price = None,
      created_at = now,
      executed_at = None,
      cancelled_at = None,
      external_order_id = None,
      fee_amount = 0,
      fee_currency = None\<rparr>"

definition fill_percentage_of :: "Order \<Rightarrow> decimal" where
  "fill_percentage_of ordr =
     (if ord_quantity ordr > 0 then executed_quantity ordr / ord_quantity ordr * 100 else 0)"

definition create_order ::
  "settings \<Rightarrow> uuid \<Rightarrow> OrderCreate \<Rightarrow> uuid \<Rightarrow> datetime \<Rightarrow> db \<Rightarrow> (error + OrderResponse) \<times> db" where
  "create_order st current_user order_data new_id now s =
     (if \<not> (gt0 (oc_quantity order_data) \<and> opt_gt0 (oc_price order_data)
             \<and> opt_gt0 (oc_stop_price order_data)) then
        (Inl RequestValidationError, s)
      else
        case get_user_portfolio (oc_portfolio_id order_data) current_user s of
          Inl e \<Rightarrow> (Inl e, s)
        | Inr portfolio \<Rightarrow>
        (case get_asset_by_symbol (oc_asset_symbol order_data) s of
          Inl e \<Rightarrow> (Inl e, s)
        | Inr asset \<Rightarrow>
        if oc_order_type order_data \<in> {LIMIT, STOP_LOSS, TAKE_PROFIT}
           \<and> \<not> truthy (oc_price order_data) then
          (Inl (HTTPException 400 Price_is_required_for_limit_and_stop_orders), s)
        else
          (let estimated_price = or_else (oc_price order_data) 45000;
               order_value = oc_quantity order_data * estimated_price
           in case validate_order_limits st now portfolio order_value s of
                Inl e \<Rightarrow> (Inl e, s)
              | Inr _ \<Rightarrow>
                  (let db_order = new_order new_id now (pf_id portfolio) (as_id asset)
                         (oc_order_type order_data) (oc_quantity order_data)
                         (oc_price order_data) (oc_stop_price order_data)
                   in case add_order db_order s of
                        Inl e \<Rightarrow> (Inl e, s)
                      | Inr s1 \<Rightarrow>
                          (let s2 = (if oc_order_type order_data \<in> {MARKET, BUY, SELL}
                                     then execute_order_async (ord_id db_order) s1 else s1)
                           in (Inr \<lparr>resp_order = db_order,
                                    resp_asset = asset,
                                    remaining_quantity =
                                      ord_quantity db_order - executed_quantity db_order,
                                    total_value = Some
                                      (or_else (price db_order) estimated_price
                                         * ord_quantity db_order),
                                    fill_percentage = fill_percentage_of db_order\<rparr>,
                               s2))))))"

record QuickTradeRequest =
  qt_portfolio_id :: uuid
  qt_asset_symbol :: string
  qt_side :: OrderTypeEnum
  qt_amount_eur :: "decimal option"
  qt_quantity :: "decimal option"

record TradeExecutionResponse =
  te_order_id :: uuid
  te_status :: OrderStatusEnum
  te_executed_quantity :: decimal
  te_executed_price :: decimal
  te_total_value :: decimal
  te_fee_amount :: decimal
  te_net_amount :: decimal

definition quick_trade ::
  "settings \<Rightarrow> uuid \<Rightarrow> QuickTradeRequest \<Rightarrow> uuid \<Rightarrow> datetime \<Rightarrow> db \<Rightarrow>
   (error + TradeExecutionResponse) \<times> db" where
  "quick_trade st current_user trade_data new_id now s =
     (if \<not> (qt_side trade_data \<in> {BUY, SELL} \<and> opt_gt0 (qt_amount_eur trade_data)
             \<and> opt_gt0 (qt_quantity trade_data)) then
        (Inl RequestValidationError, s)
      else
        case get_user_portfolio (qt_portfolio_id trade_data) current_user s of
          Inl e \<Rightarrow> (Inl e, s)
        | Inr portfolio \<Rightarrow>
        (case get_asset_by_symbol (qt_asset_symbol trade_data) s of
          Inl e \<Rightarrow> (Inl e, s)
        | Inr asset \<Rightarrow>
        (let market_price = (45000 :: decimal) in
         case (if truthy (qt_amount_eur trade_data) \<and> \<not> truthy (qt_quantity trade_data)
               then Inr (the (qt_amount_eur trade_data) / market_price)
               else if \<not> truthy (qt_quantity trade_data)
               then Inl (HTTPException 400 Either_amount_eur_or_quantity_must_be_provided)
               else Inr (the (qt_quantity trade_data))) of
           Inl e \<Rightarrow> (Inl e, s)
         | Inr qty \<Rightarrow>
         if \<not> gt0 qty then (Inl RequestValidationError, s)
         else
           (let db_order = new_order new_id now (pf_id portfolio) (as_id asset)
                  (qt_side trade_data) qty None None
            in case add_order db_order s of
                 Inl e \<Rightarrow> (Inl e, s)
               | Inr s1 \<Rightarrow>
                 (case simulate_order_execution st now db_order of
                    Inl e \<Rightarrow> (Inl e, s1)
                  | Inr er \<Rightarrow>
                    (let db_order' = db_order
                           \<lparr>ord_status := er_status er,
                            executed_quantity := er_executed_quantity er,
                            executed_price := Some (er_executed_price er),
                            fee_amount := er_fee_amount er,
                            fee_currency := Some (er_fee_currency er),
                            external_order_id := Some (er_external_order_id er),
                            executed_at := Some (er_executed_at er)\<rparr>
                     in case update_position_from_order db_order' er now
                               (save_order db_order' s1) of
                          (Inl e, _) \<Rightarrow> (Inl e, s1)
                        | (Inr _, s2) \<Rightarrow>
                            (let tv = er_executed_quantity er * er_executed_price er;
                                 net_amount = tv - er_fee_amount er
                             in (Inr \<lparr>te_order_id = ord_id db_order',
                                      te_status = er_status er,
                                      te_executed_quantity = er_executed_quantity er,
                                      te_executed_price = er_executed_price er,
                                      te_total_value = tv,
                                      te_fee_amount = er_fee_amount er,
                                      te_net_amount = net_amount\<rparr>,
                                 s2))))))))"

text \<open>
  The order query of \<^verbatim>\<open>update_order\<close> and \<^verbatim>\<open>cancel_order\<close>: the orders
  joined with their portfolios, by order id and owner.
\<close>

definition user_order_rows :: "uuid \<Rightarrow> uuid \<Rightarrow> db \<Rightarrow> Order list" where
  "user_order_rows order_id user_id s =
     concat (map
       (\<lambda>x. map (\<lambda>pf. x)
          (filter (\<lambda>pf. pf_id pf = ord_portfolio_id x \<and> pf_user_id pf = user_id)
             (portfolios s)))
       (filter (\<lambda>x. ord_id x = order_id) (orders s)))"

record OrderUpdate =
  ou_price :: "decimal option"
  ou_stop_price :: "decimal option"
  ou_quantity :: "decimal option"

definition update_order ::
  "uuid \<Rightarrow> uuid \<Rightarrow> OrderUpdate \<Rightarrow> db \<Rightarrow> (error + Order) \<times> db" where
  "update_order current_user order_id order_update s =
     (if \<not> (opt_gt0 (ou_price order_update) \<and> opt_gt0 (ou_stop_price order_update)
             \<and> opt_gt0 (ou_quantity order_update)) then
        (Inl RequestValidationError, s)
      else
        case scalar_one_or_none (user_order_rows order_id current_user s) of
          Inl e \<Rightarrow> (Inl e, s)
        | Inr None \<Rightarrow> (Inl (HTTPException 404 Order_not_found), s)
        | Inr (Some ordr) \<Rightarrow>
            if ord_status ordr \<noteq> PENDING then
              (Inl (HTTPException 400 Can_only_update_pending_orders), s)
            else
              (let o1 = (case ou_price order_update of
                           None \<Rightarrow> ordr | Some v \<Rightarrow> ordr\<lparr>price := Some v\<rparr>);
                   o2 = (case ou_stop_price order_update of
                           None \<Rightarrow> o1 | Some v \<Rightarrow> o1\<lparr>stop_price := Some v\<rparr>);
                   o3 = (case ou_quantity order_update of
                           None \<Rightarrow> o2 | Some v \<Rightarrow> o2\<lparr>ord_quantity := v\<rparr>)
               in (Inr o3, save_order o3 s)))"

definition cancel_order ::
  "uuid \<Rightarrow> uuid \<Rightarrow> datetime \<Rightarrow> db \<Rightarrow> (error + unit) \<times> db" where
  "cancel_order current_user order_id now s =
     (case scalar_one_or_none (user_order_rows order_id current_user s) of
        Inl e \<Rightarrow> (Inl e, s)
      | Inr None \<Rightarrow> (Inl (HTTPException 404 Order_not_found), s)
      | Inr (Some ordr) \<Rightarrow>
          if ord_status ordr \<noteq> PENDING then
            (Inl (HTTPException 400 Can_only_cancel_pending_orders), s)
          else
            (Inr (), save_order (ordr\<lparr>ord_status := CANCELLED, cancelled_at := Some now\<rparr>) s))"

text \<open>
  The exposed order operations, each with the caller and the values it draws, and the
  committed tables after a sequence of requests.
\<close>

datatype operation =
    Create_order uuid OrderCreate uuid datetime
  | Quick_trade uuid QuickTradeRequest uuid datetime
  | Update_order uuid uuid OrderUpdate
  | Cancel_order uuid uuid datetime

fun request :: "settings \<Rightarrow> operation \<Rightarrow> db \<Rightarrow> db" where
  "request st (Create_order u order_data new_id now) s =
     snd (create_order st u order_data new_id now s)"
| "request st (Quick_trade u trade_data new_id now) s =
     snd (quick_trade st u trade_data new_id now s)"
| "request st (Update_order u order_id order_update) s =
     snd (update_order u order_id order_update s)"
| "request st (Cancel_order u order_id now) s =
     snd (cancel_order u order_id now s)"

fun requests :: "settings \<Rightarrow> operation list \<Rightarrow> db \<Rightarrow> db" where
  "requests st [] s = s"
| "requests st (r # rs) s = requests st rs (request st r s)"

definition terminal :: "OrderStatusEnum \<Rightarrow> bool" where
  "terminal status \<longleftrightarrow> status = EXECUTED \<or> status = CANCELLED \<or> status = FAILED"

section \<open>Risk monitor\<close>

datatype AlertTypeEnum = DRAWDOWN | CONCENTRATION | VOLATILITY | ALERT_STOP_LOSS | MARGIN_CALL

datatype SeverityEnum = LOW | MEDIUM | HIGH | CRITICAL







section \<open>Rows singled out by a query\<close>

text \<open>
  \<open>sole P rows before r after\<close>: the row \<open>r\<close> is the only one of \<open>rows\<close> that the
  filter \<open>P\<close> selects, with the rows \<open>before\<close> and \<open>after\<close> it.
\<close>

definition sole :: "('a \<Rightarrow> bool) \<Rightarrow> 'a list \<Rightarrow> 'a list \<Rightarrow> 'a \<Rightarrow> 'a list \<Rightarrow> bool" where
  "sole P rows before r after \<longleftrightarrow>
     rows = before @ r # after \<and> P r \<and> filter P before = [] \<and> filter P after = []"

section \<open>Quick trade, step by step\<close>








section \<open>Scenarios\<close>

text \<open>
  One user, one portfolio and the asset BTC, as in the example scenarios: the ledger with
  a given cash balance and positions, an order on BTC and a fill as the simulator
  reports it.
\<close>

definition btc :: Asset where
  "btc = \<lparr>as_id = 1, symbol = ''BTC'', is_active = True\<rparr>"

definition main_portfolio :: "decimal \<Rightarrow> Portfolio" where
  "main_portfolio b =
     \<lparr>pf_id = 1, pf_user_id = 1, current_balance = b, total_invested = 0,
      total_profit_loss = 0\<rparr>"

definition btc_position :: "decimal \<Rightarrow> decimal \<Rightarrow> Position" where
  "btc_position q a =
     \<lparr>pos_portfolio_id = 1, pos_asset_id = 1, pos_quantity = q, avg_buy_price = a,
      current_price = None, unrealized_pnl = 0, realized_pnl = 0, pos_status = OPEN,
      closed_at = None\<rparr>"

definition ledger :: "decimal \<Rightarrow> Position list \<Rightarrow> Order list \<Rightarrow> db" where
  "ledger b ps os =
     \<lparr>portfolios = [main_portfolio b], assets = [btc], positions = ps, orders = os\<rparr>"

definition btc_order :: "uuid \<Rightarrow> OrderTypeEnum \<Rightarrow> decimal \<Rightarrow> decimal option \<Rightarrow> Order" where
  "btc_order i ty q pr = new_order i 0 1 1 ty q pr None"

definition fill :: "uuid \<Rightarrow> decimal \<Rightarrow> decimal \<Rightarrow> decimal \<Rightarrow> execution_result" where
  "fill i q p f =
     \<lparr>er_status = EXECUTED, er_executed_quantity = q, er_executed_price = p,
      er_fee_amount = f, er_fee_currency = ''EUR'', er_external_order_id = i,
      er_executed_at = 0\<rparr>"

section \<open>Fill application: the equations of each branch\<close>

lemma map_unselected: "filter P xs = [] \<Longrightarrow> map (\<lambda>x. if P x then f x else x) xs = xs"
  by (induction xs) (auto split: if_splits)

lemma sole_filter: "sole P rows before r after \<Longrightarrow> filter P rows = [r]"
  by (simp add: sole_def)

lemma sole_map:
  "sole P rows before r after \<Longrightarrow>
   map (\<lambda>x. if P x then f x else x) rows = before @ f r # after"
  by (simp add: sole_def map_unselected)

lemma scalar_one_or_none_simps:
  "scalar_one_or_none [] = Inr None"
  "scalar_one_or_none [r] = Inr (Some r)"
  by (simp_all add: scalar_one_or_none_def)

lemma scalar_one_single: "scalar_one [r] = Inr r"
  by (simp add: scalar_one_def)

lemma buy_existing:
  assumes "order_type ordr = BUY"
    and "sole (portfolio_of ordr) (portfolios s) ps pf qs"
    and "sole (open_position_of ordr) (positions s) xs pos ys"
    and "pos_quantity pos + er_executed_quantity er \<noteq> 0"
  shows "update_position_from_order ordr er now s =
     (Inr (),
      s\<lparr>positions := xs @ pos\<lparr>avg_buy_price :=
            (pos_quantity pos * avg_buy_price pos
              + er_executed_quantity er * er_executed_price er)
            / (pos_quantity pos + er_executed_quantity er),
          pos_quantity := pos_quantity pos + er_executed_quantity er\<rparr> # ys,
        portfolios := ps @ pf\<lparr>current_balance := current_balance pf
            - (er_executed_quantity er * er_executed_price er + er_fee_amount er)\<rparr> # qs\<rparr>)"
  using assms
  by (simp add: update_position_from_order_def sole_filter sole_map
      scalar_one_or_none_simps scalar_one_single Let_def)



lemmas scenario_defs = btc_def main_portfolio_def btc_position_def ledger_def btc_order_def
  fill_def new_order_def sole_def open_position_of_def portfolio_of_def

lemma buy_applied_portfolios:
  assumes "order_type ordr = BUY"
    and "fst (update_position_from_order ordr er now s) = Inr ()"
  shows "portfolios (snd (update_position_from_order ordr er now s)) =
     map (\<lambda>pf. if portfolio_of ordr pf
               then pf\<lparr>current_balance := current_balance pf
                  - (er_executed_quantity er * er_executed_price er + er_fee_amount er)\<rparr>
               else pf) (portfolios s)"
  using assms
  by (auto simp: update_position_from_order_def Let_def
      split: sum.splits option.splits if_splits)

lemma balance_not_read:
  assumes "portfolios s' = map (\<lambda>pf. pf\<lparr>current_balance := b pf\<rparr>) (portfolios s)"
    and "positions s' = positions s"
  shows "fst (update_position_from_order ordr er now s')
       = fst (update_position_from_order ordr er now s)"
proof -
  have f: "filter (portfolio_of ordr) (map (\<lambda>pf. pf\<lparr>current_balance := b pf\<rparr>) xs)
      = map (\<lambda>pf. pf\<lparr>current_balance := b pf\<rparr>) (filter (portfolio_of ordr) xs)" for xs
    by (induction xs) (auto simp: portfolio_of_def)
  have g: "(case scalar_one (map (\<lambda>pf. pf\<lparr>current_balance := b pf\<rparr>) xs) of
              Inl e \<Rightarrow> Inl e | Inr _ \<Rightarrow> Inr ())
         = (case scalar_one xs of Inl e \<Rightarrow> Inl e | Inr _ \<Rightarrow> Inr ())" for xs :: "Portfolio list"
    by (cases xs rule: list.exhaust; simp add: scalar_one_def split: list.splits)
  have h: "fst (case r of Inl e \<Rightarrow> (Inl e, x) | Inr pf \<Rightarrow> (Inr (), y pf))
      = (case r of Inl e \<Rightarrow> Inl e | Inr _ \<Rightarrow> Inr ())" for r :: "error + Portfolio" and x :: db and y :: "Portfolio \<Rightarrow> db"
    by (cases r) simp_all
  show ?thesis
    using assms g [of "filter (portfolio_of ordr) (portfolios s)"]
    by (auto simp: update_position_from_order_def Let_def f h
      split: sum.splits option.splits if_splits)
qed

lemma status_not_read:
  "update_position_from_order (ordr\<lparr>ord_status := st\<rparr>) er now s
     = update_position_from_order ordr er now s"
proof -
  have p: "open_position_of (ordr\<lparr>ord_status := st\<rparr>) = open_position_of ordr"
    by (simp add: fun_eq_iff open_position_of_def)
  have q: "portfolio_of (ordr\<lparr>ord_status := st\<rparr>) = portfolio_of ordr"
    by (simp add: fun_eq_iff portfolio_of_def)
  show ?thesis
    by (simp add: update_position_from_order_def p q Let_def
        cong: sum.case_cong option.case_cong if_cong)
qed

lemma upper_btc: "upper ''btc'' = ''BTC''"
  by code_simp

section \<open>Position ledger\<close>






text \<open>
  Claim C4. A sell fill whose quantity exceeds the quantity of the open position, or for
  which the asset has no open position, fails with the insufficient-position error
  (status 400) and changes nothing: the session, with every position and the
  portfolio's balance, is as it was.
\<close>

theorem sell_insufficient_position:
  assumes "order_type ordr = SELL"
    and "filter (open_position_of ordr) (positions s) = []
       \<or> (\<exists>pos. filter (open_position_of ordr) (positions s) = [pos]
              \<and> pos_quantity pos < er_executed_quantity er)"
  shows "update_position_from_order ordr er now s =
     (Inl (HTTPException 400 Insufficient_position_quantity_for_sell_order), s)"
  using assms
  by (auto simp: update_position_from_order_def scalar_one_or_none_def)

text \<open>
  Scenario 5: a sell of 0.2 BTC against an open position of 0.1 BTC, and against no
  position at all.
\<close>

theorem sell_insufficient_position_witness:
  "update_position_from_order (btc_order 9 SELL (1/5) None) (fill 9 (1/5) 45000 (27/2)) 0
     (ledger 10000 [btc_position (1/10) 45000] [])
     = (Inl (HTTPException 400 Insufficient_position_quantity_for_sell_order),
        ledger 10000 [btc_position (1/10) 45000] [])
   \<and> update_position_from_order (btc_order 9 SELL (1/5) None) (fill 9 (1/5) 45000 (27/2)) 0
     (ledger 10000 [] [])
     = (Inl (HTTPException 400 Insufficient_position_quantity_for_sell_order),
        ledger 10000 [] [])"
  using sell_insufficient_position [of "btc_order 9 SELL (1/5) None"
      "ledger 10000 [btc_position (1/10) 45000] []" "fill 9 (1/5) 45000 (27/2)" 0]
    sell_insufficient_position [of "btc_order 9 SELL (1/5) None"
      "ledger 10000 [] []" "fill 9 (1/5) 45000 (27/2)" 0]
  by (simp add: scenario_defs)

section \<open>Portfolio account\<close>

text \<open>
  Claim C1 (as amended). A buy fill that is applied decreases the cash balance of the
  portfolio by exactly \<open>filled_qty * filled_price + fee_amount\<close>. The application
  does not look at the balance: the same fill is applied whatever balance \<open>b\<close> the
  portfolio holds, and the balance after it is non-negative exactly when the balance
  before it was at least the cost of the fill.
\<close>

theorem buy_fill_balance:
  assumes "order_type ordr = BUY"
    and "sole (portfolio_of ordr) (portfolios s) ps pf qs"
    and "fst (update_position_from_order ordr er now s) = Inr ()"
  shows
    "portfolios (snd (update_position_from_order ordr er now s)) =
       ps @ pf\<lparr>current_balance := current_balance pf
          - (er_executed_quantity er * er_executed_price er + er_fee_amount er)\<rparr> # qs
     \<and> fst (update_position_from_order ordr er now
            (s\<lparr>portfolios := ps @ pf\<lparr>current_balance := b\<rparr> # qs\<rparr>)) = Inr ()
     \<and> (list_all (\<lambda>p. 0 \<le> current_balance p)
          (filter (portfolio_of ordr)
             (portfolios (snd (update_position_from_order ordr er now s))))
        \<longleftrightarrow> er_executed_quantity er * er_executed_price er + er_fee_amount er
              \<le> current_balance pf)"
proof -
  let ?cost = "er_executed_quantity er * er_executed_price er + er_fee_amount er"
  have after: "portfolios (snd (update_position_from_order ordr er now s)) =
       ps @ pf\<lparr>current_balance := current_balance pf - ?cost\<rparr> # qs"
    by (simp add: buy_applied_portfolios [OF assms(1) assms(3)] sole_map [OF assms(2)])
  have sel: "filter (portfolio_of ordr) (ps @ pf\<lparr>current_balance := c\<rparr> # qs)
      = [pf\<lparr>current_balance := c\<rparr>]" for c
    using assms(2) by (simp add: sole_def portfolio_of_def)
  have "map (\<lambda>p. p\<lparr>current_balance := (if portfolio_of ordr p then b else current_balance p)\<rparr>)
          (portfolios s) = ps @ pf\<lparr>current_balance := b\<rparr> # qs"
    using sole_map [OF assms(2), of "\<lambda>p. p\<lparr>current_balance := b\<rparr>"]
    by (simp add: if_distrib [of "\<lambda>c. p\<lparr>current_balance := c\<rparr>" for p] cong: if_cong)
  then have "fst (update_position_from_order ordr er now
            (s\<lparr>portfolios := ps @ pf\<lparr>current_balance := b\<rparr> # qs\<rparr>))
        = fst (update_position_from_order ordr er now s)"
    by (intro balance_not_read
          [of _ "\<lambda>p. if portfolio_of ordr p then b else current_balance p"]) simp_all
  with assms(3) after sel show ?thesis by simp
qed

text \<open>
  Scenario 1: the balance 10,000 after buying 0.1 BTC at 45,000 with fee 6.75 is
  5,493.25; the same fill is applied to a balance of 5.
\<close>

theorem buy_fill_balance_witness:
  "portfolios (snd (update_position_from_order (btc_order 7 BUY (1/10) None)
      (fill 7 (1/10) 45000 (27/4)) 0 (ledger 10000 [] [])))
     = [main_portfolio (21973/4)]
   \<and> fst (update_position_from_order (btc_order 7 BUY (1/10) None)
      (fill 7 (1/10) 45000 (27/4)) 0 (ledger 10000 [] [])) = Inr ()
   \<and> fst (update_position_from_order (btc_order 7 BUY (1/10) None)
      (fill 7 (1/10) 45000 (27/4)) 0 (ledger 5 [] [])) = Inr ()"
  using buy_fill_balance [of "btc_order 7 BUY (1/10) None" "ledger 10000 [] []" "[]"
      "main_portfolio 10000" "[]" "fill 7 (1/10) 45000 (27/4)" 0 5]
  by (simp add: scenario_defs update_position_from_order_def scalar_one_def
      scalar_one_or_none_def)

text \<open>
  Claim C1 as stated fails: a buy of 1 BTC at 45,000 is applied to a balance of 100 and
  leaves the balance at -44,967.5.
\<close>

theorem buy_fill_negative_balance:
  "simulate_order_execution default_settings 0 (btc_order 7 BUY 1 None)
     = Inr (fill 7 1 45000 (135/2))
   \<and> fst (update_position_from_order (btc_order 7 BUY 1 None)
      (fill 7 1 45000 (135/2)) 0 (ledger 100 [] [])) = Inr ()
   \<and> map current_balance (portfolios (snd (update_position_from_order
      (btc_order 7 BUY 1 None) (fill 7 1 45000 (135/2)) 0 (ledger 100 [] []))))
     = [- (89935/2)]
   \<and> \<not> list_all (\<lambda>p. 0 \<le> current_balance p) (portfolios (snd (update_position_from_order
      (btc_order 7 BUY 1 None) (fill 7 1 45000 (135/2)) 0 (ledger 100 [] []))))"
  by (simp add: scenario_defs update_position_from_order_def scalar_one_def
      scalar_one_or_none_def simulate_order_execution_def default_settings_def or_else_def)

section \<open>Execution engine\<close>

text \<open>
  Claim C5 (as amended). Fill application does not read the order's status: the order
  marked executed is applied exactly as the pending one is. Applying the same buy fill a
  second time to an open position (positive quantity, positive filled quantity) succeeds
  again and applies the effects again: after the second application the balance is lower
  by twice \<open>filled_qty * filled_price + fee_amount\<close> and the quantity of the position
  higher by twice the filled quantity.
\<close>

theorem fill_applied_again:
  assumes "order_type ordr = BUY"
    and "sole (portfolio_of ordr) (portfolios s) ps pf qs"
    and "sole (open_position_of ordr) (positions s) xs pos ys"
    and "0 < pos_quantity pos"
    and "0 < er_executed_quantity er"
  shows
    "update_position_from_order (ordr\<lparr>ord_status := EXECUTED\<rparr>) er now s
       = update_position_from_order ordr er now s
     \<and> fst (update_position_from_order ordr er now s) = Inr ()
     \<and> fst (update_position_from_order ordr er now
              (snd (update_position_from_order ordr er now s))) = Inr ()
     \<and> portfolios (snd (update_position_from_order ordr er now
              (snd (update_position_from_order ordr er now s)))) =
         ps @ pf\<lparr>current_balance := current_balance pf
            - 2 * (er_executed_quantity er * er_executed_price er + er_fee_amount er)\<rparr> # qs
     \<and> map pos_quantity (positions (snd (update_position_from_order ordr er now
              (snd (update_position_from_order ordr er now s))))) =
         map pos_quantity xs @ (pos_quantity pos + 2 * er_executed_quantity er)
           # map pos_quantity ys"
proof -
  let ?q = "er_executed_quantity er"
  let ?cost = "er_executed_quantity er * er_executed_price er + er_fee_amount er"
  let ?pos1 = "pos\<lparr>avg_buy_price :=
            (pos_quantity pos * avg_buy_price pos + ?q * er_executed_price er)
            / (pos_quantity pos + ?q),
          pos_quantity := pos_quantity pos + ?q\<rparr>"
  let ?pf1 = "pf\<lparr>current_balance := current_balance pf - ?cost\<rparr>"
  let ?s1 = "s\<lparr>positions := xs @ ?pos1 # ys, portfolios := ps @ ?pf1 # qs\<rparr>"
  have nz: "pos_quantity pos + ?q \<noteq> 0"
    using assms(4,5) by simp
  have first: "update_position_from_order ordr er now s = (Inr (), ?s1)"
    by (rule buy_existing [OF assms(1-3) nz])
  have pf1: "sole (portfolio_of ordr) (portfolios ?s1) ps ?pf1 qs"
    using assms(2) by (simp add: sole_def portfolio_of_def)
  have pos1: "sole (open_position_of ordr) (positions ?s1) xs ?pos1 ys"
    using assms(3) by (simp add: sole_def open_position_of_def)
  have nz1: "pos_quantity ?pos1 + ?q \<noteq> 0"
    using assms(4,5) by simp
  note second = buy_existing [OF assms(1) pf1 pos1 nz1, of now]
  show ?thesis
    by (simp add: status_not_read first second)
qed

text \<open>
  Twice the same buy of 0.1 BTC at 45,000 against a position of 0.1 BTC and a balance of
  10,000: the balance ends at 986.5 and the position at 0.3 BTC.
\<close>

theorem fill_applied_again_witness:
  "map current_balance (portfolios (snd (update_position_from_order
      (btc_order 7 BUY (1/10) None) (fill 7 (1/10) 45000 (27/4)) 0
      (snd (update_position_from_order (btc_order 7 BUY (1/10) None)
         (fill 7 (1/10) 45000 (27/4)) 0 (ledger 10000 [btc_position (1/10) 45000] []))))))
     = [1973/2]
   \<and> map pos_quantity (positions (snd (update_position_from_order
      (btc_order 7 BUY (1/10) None) (fill 7 (1/10) 45000 (27/4)) 0
      (snd (update_position_from_order (btc_order 7 BUY (1/10) None)
         (fill 7 (1/10) 45000 (27/4)) 0 (ledger 10000 [btc_position (1/10) 45000] []))))))
     = [3/10]"
  using fill_applied_again [of "btc_order 7 BUY (1/10) None"
      "ledger 10000 [btc_position (1/10) 45000] []" "[]" "main_portfolio 10000" "[]"
      "[]" "btc_position (1/10) 45000" "[]" "fill 7 (1/10) 45000 (27/4)" 0]
  by (simp add: scenario_defs)

text \<open>
  Claim C5 as stated fails: the fill of an order already marked executed, applied a
  second time, moves the balance from 5,493.25 to 986.5 and the quantity of the
  position from 0.1 to 0.2.
\<close>

theorem retried_fill_applied_twice:
  "map current_balance (portfolios (snd (update_position_from_order
      ((btc_order 7 BUY (1/10) None)\<lparr>ord_status := EXECUTED\<rparr>)
      (fill 7 (1/10) 45000 (27/4)) 0 (ledger 10000 [] []))))
     = [21973/4]
   \<and> map pos_quantity (positions (snd (update_position_from_order
      ((btc_order 7 BUY (1/10) None)\<lparr>ord_status := EXECUTED\<rparr>)
      (fill 7 (1/10) 45000 (27/4)) 0 (ledger 10000 [] []))))
     = [1/10]
   \<and> map current_balance (portfolios (snd (update_position_from_order
      ((btc_order 7 BUY (1/10) None)\<lparr>ord_status := EXECUTED\<rparr>)
      (fill 7 (1/10) 45000 (27/4)) 0
      (snd (update_position_from_order
         ((btc_order 7 BUY (1/10) None)\<lparr>ord_status := EXECUTED\<rparr>)
         (fill 7 (1/10) 45000 (27/4)) 0 (ledger 10000 [] []))))))
     = [1973/2]
   \<and> map pos_quantity (positions (snd (update_position_from_order
      ((btc_order 7 BUY (1/10) None)\<lparr>ord_status := EXECUTED\<rparr>)
      (fill 7 (1/10) 45000 (27/4)) 0
      (snd (update_position_from_order
         ((btc_order 7 BUY (1/10) None)\<lparr>ord_status := EXECUTED\<rparr>)
         (fill 7 (1/10) 45000 (27/4)) 0 (ledger 10000 [] []))))))
     = [1/5]"
  by (simp add: scenario_defs update_position_from_order_def scalar_one_def
      scalar_one_or_none_def Let_def)

section \<open>Order manager: validation and creation\<close>

text \<open>
  Claim C7 (the code at the failing input). \<open>validate_order_limits\<close> compares the
  notional value with the cash balance for every order type: a sell order of 1 BTC
  (notional value 45,000), submitted by the owner of a portfolio that holds 1 BTC and a
  cash balance of 100, is rejected with status 400, insufficient portfolio balance, and
  no order is stored.
\<close>

theorem sell_order_rejected_for_balance:
  "create_order default_settings 1
     \<lparr>oc_portfolio_id = 1, oc_asset_symbol = ''btc'', oc_order_type = SELL,
      oc_quantity = 1, oc_price = None, oc_stop_price = None\<rparr> 7 0
     (ledger 100 [btc_position 1 45000] [])
   = (Inl (HTTPException 400 Insufficient_portfolio_balance),
      ledger 100 [btc_position 1 45000] [])"
  by (simp add: create_order_def scenario_defs default_settings_def gt0_def opt_gt0_def
      get_user_portfolio_def get_asset_by_symbol_def scalar_one_or_none_def upper_btc
      truthy_def or_else_def validate_order_limits_def Let_def
      date_def)



section \<open>Order state machine\<close>

text \<open>
  What each request does to the table of orders: \<open>create_order\<close> and
  \<open>quick_trade\<close> at most append one order under a fresh id, \<open>update_order\<close> and
  \<open>cancel_order\<close> at most rewrite one pending order in place.
\<close>

lemma update_position_orders:
  "orders (snd (update_position_from_order ordr er now s)) = orders s"
  by (auto simp: update_position_from_order_def Let_def
      split: sum.splits option.splits if_splits)

lemma save_order_ids: "map ord_id (orders (save_order ordr s)) = map ord_id (orders s)"
  by (simp add: save_order_def comp_def if_distrib [of ord_id] cong: if_cong)

lemma save_order_other:
  assumes "x \<in> set (orders s)" and "ord_id x \<noteq> ord_id ordr"
  shows "x \<in> set (orders (save_order ordr s))"
  using assms by (auto simp: save_order_def image_iff intro!: bexI [of _ x])

lemma save_new_order:
  assumes "ord_id ordr \<notin> set (map ord_id xs)" and "ord_id ordr' = ord_id ordr"
  shows "orders (save_order ordr' (s\<lparr>orders := xs @ [ordr]\<rparr>)) = xs @ [ordr']"
proof -
  have "\<forall>x\<in>set xs. ord_id x \<noteq> ord_id ordr'"
    using assms by (metis image_eqI set_map)
  then have "map (\<lambda>x. if ord_id x = ord_id ordr' then ordr' else x) xs = xs"
    by (intro map_idI) simp
  then show ?thesis using assms by (simp add: save_order_def)
qed

lemma user_order_rows_subset:
  "x \<in> set (user_order_rows order_id u s) \<Longrightarrow> x \<in> set (orders s) \<and> ord_id x = order_id"
  by (auto simp: user_order_rows_def)

lemma scalar_one_or_none_Some:
  "scalar_one_or_none rows = Inr (Some r) \<Longrightarrow> r \<in> set rows"
  by (auto simp: scalar_one_or_none_def split: list.splits)

lemma distinct_ids_eq:
  assumes "distinct (map ord_id xs)" and "x \<in> set xs" and "y \<in> set xs"
    and "ord_id x = ord_id y"
  shows "x = y"
  using assms by (meson distinct_map inj_onD)

lemma add_order_Inr:
  "add_order ordr s = Inr s1 \<Longrightarrow>
   ord_id ordr \<notin> set (map ord_id (orders s)) \<and> s1 = s\<lparr>orders := orders s @ [ordr]\<rparr>"
  by (auto simp: add_order_def split: if_splits)

lemma ord_id_new_order: "ord_id (new_order new_id now p a ty q pr stp) = new_id"
  by (simp add: new_order_def)

lemma create_order_result:
  assumes "create_order st u order_data new_id now s = (r, s')"
  shows "orders s' = orders s
     \<or> (new_id \<notin> set (map ord_id (orders s))
          \<and> (\<exists>x. ord_id x = new_id \<and> orders s' = orders s @ [x]))"
  using assms
  by (auto simp: create_order_def Let_def execute_order_async_def
      ord_id_new_order split: sum.splits if_splits dest!: add_order_Inr)


lemma update_position_orders_eq:
  "update_position_from_order ordr er now s = (r, s2) \<Longrightarrow> orders s2 = orders s"
  using update_position_orders [of ordr er now s] by simp

lemma quick_trade_result:
  assumes "quick_trade st u trade_data new_id now s = (r, s')"
  shows "orders s' = orders s
     \<or> (new_id \<notin> set (map ord_id (orders s))
          \<and> (\<exists>x. ord_id x = new_id \<and> orders s' = orders s @ [x]))"
  using assms
  unfolding quick_trade_def Let_def
  by (auto simp: ord_id_new_order save_new_order
      split: sum.splits if_splits prod.splits
      dest!: add_order_Inr update_position_orders_eq)


lemma update_order_result:
  assumes "update_order u order_id order_update s = (r, s')"
  shows "s' = s
     \<or> (\<exists>ordr o3. ordr \<in> set (orders s) \<and> ord_status ordr = PENDING
            \<and> ord_id o3 = ord_id ordr \<and> s' = save_order o3 s)"
proof (cases "scalar_one_or_none (user_order_rows order_id u s)")
  case (Inl e)
  with assms show ?thesis by (auto simp: update_order_def split: if_splits)
next
  case (Inr found)
  show ?thesis
  proof (cases found)
    case None
    with Inr assms show ?thesis by (auto simp: update_order_def split: if_splits)
  next
    case (Some ordr)
    have "scalar_one_or_none (user_order_rows order_id u s) = Inr (Some ordr)"
      using Inr Some by simp
    then have "ordr \<in> set (user_order_rows order_id u s)"
      by (rule scalar_one_or_none_Some)
    then have mem: "ordr \<in> set (orders s)"
      by (rule user_order_rows_subset [THEN conjunct1])
    let ?o1 = "case ou_price order_update of
                 None \<Rightarrow> ordr | Some v \<Rightarrow> ordr\<lparr>price := Some v\<rparr>"
    let ?o2 = "case ou_stop_price order_update of
                 None \<Rightarrow> ?o1 | Some v \<Rightarrow> ?o1\<lparr>stop_price := Some v\<rparr>"
    let ?o3 = "case ou_quantity order_update of
                 None \<Rightarrow> ?o2 | Some v \<Rightarrow> ?o2\<lparr>ord_quantity := v\<rparr>"
    have id3: "ord_id ?o3 = ord_id ordr"
      by (simp split: option.splits)
    have "s' = s \<or> (ord_status ordr = PENDING \<and> s' = save_order ?o3 s)"
      using Inr Some assms by (simp add: update_order_def Let_def split: if_splits)
    then show ?thesis
    proof
      assume "s' = s"
      then show ?thesis by simp
    next
      assume "ord_status ordr = PENDING \<and> s' = save_order ?o3 s"
      with mem id3 show ?thesis by blast
    qed
  qed
qed

lemma cancel_order_result:
  assumes "cancel_order u order_id now s = (r, s')"
  shows "s' = s
     \<or> (\<exists>ordr o3. ordr \<in> set (orders s) \<and> ord_status ordr = PENDING
            \<and> ord_id o3 = ord_id ordr \<and> s' = save_order o3 s)"
proof (cases "scalar_one_or_none (user_order_rows order_id u s)")
  case (Inl e)
  with assms show ?thesis by (auto simp: cancel_order_def)
next
  case (Inr found)
  show ?thesis
  proof (cases found)
    case None
    with Inr assms show ?thesis by (auto simp: cancel_order_def)
  next
    case (Some ordr)
    have "scalar_one_or_none (user_order_rows order_id u s) = Inr (Some ordr)"
      using Inr Some by simp
    then have "ordr \<in> set (user_order_rows order_id u s)"
      by (rule scalar_one_or_none_Some)
    then have mem: "ordr \<in> set (orders s)"
      by (rule user_order_rows_subset [THEN conjunct1])
    let ?o3 = "ordr\<lparr>ord_status := CANCELLED, cancelled_at := Some now\<rparr>"
    have id3: "ord_id ?o3 = ord_id ordr"
      by simp
    have "s' = s \<or> (ord_status ordr = PENDING \<and> s' = save_order ?o3 s)"
      using Inr Some assms by (simp add: cancel_order_def split: if_splits)
    then show ?thesis
    proof
      assume "s' = s"
      then show ?thesis by simp
    next
      assume "ord_status ordr = PENDING \<and> s' = save_order ?o3 s"
      with mem id3 show ?thesis by blast
    qed
  qed
qed

lemma terminal_not_pending: "terminal status \<Longrightarrow> status \<noteq> PENDING"
  by (auto simp: terminal_def)

lemma appended_keeps:
  assumes "distinct (map ord_id (orders s))"
    and "orders s' = orders s
     \<or> (new_id \<notin> set (map ord_id (orders s))
          \<and> (\<exists>x. ord_id x = new_id \<and> orders s' = orders s @ [x]))"
  shows "distinct (map ord_id (orders s')) \<and> set (orders s) \<subseteq> set (orders s')"
  using assms by auto

lemma saved_keeps:
  assumes "distinct (map ord_id (orders s))"
    and "s' = s
     \<or> (\<exists>ordr o3. ordr \<in> set (orders s) \<and> ord_status ordr = PENDING
            \<and> ord_id o3 = ord_id ordr \<and> s' = save_order o3 s)"
    and "x \<in> set (orders s)" and "terminal (ord_status x)"
  shows "distinct (map ord_id (orders s')) \<and> x \<in> set (orders s')"
  using assms(2)
proof
  assume "s' = s"
  with assms show ?thesis by simp
next
  assume "\<exists>ordr o3. ordr \<in> set (orders s) \<and> ord_status ordr = PENDING
            \<and> ord_id o3 = ord_id ordr \<and> s' = save_order o3 s"
  then obtain ordr o3 where o: "ordr \<in> set (orders s)" "ord_status ordr = PENDING"
    "ord_id o3 = ord_id ordr" "s' = save_order o3 s" by blast
  have "x \<noteq> ordr"
    using o(2) terminal_not_pending [OF assms(4)] by auto
  then have "ord_id x \<noteq> ord_id o3"
    using distinct_ids_eq [OF assms(1) assms(3) o(1)] o(3) by auto
  then show ?thesis
    using assms(1,3) o(4) by (simp add: save_order_ids save_order_other)
qed

lemma request_keeps:
  assumes "distinct (map ord_id (orders s))"
    and "x \<in> set (orders s)" and "terminal (ord_status x)"
  shows "distinct (map ord_id (orders (request st r s))) \<and> x \<in> set (orders (request st r s))"
proof (cases r)
  case (Create_order u order_data new_id now)
  then show ?thesis
    using appended_keeps [OF assms(1)
        create_order_result [OF surjective_pairing, of st u order_data new_id now s]] assms(2)
    by auto
next
  case (Quick_trade u trade_data new_id now)
  then show ?thesis
    using appended_keeps [OF assms(1)
        quick_trade_result [OF surjective_pairing, of st u trade_data new_id now s]] assms(2)
    by auto
next
  case (Update_order u order_id order_update)
  then show ?thesis
    using saved_keeps [OF assms(1)
        update_order_result [OF surjective_pairing, of u order_id order_update s] assms(2,3)]
    by simp
next
  case (Cancel_order u order_id now)
  then show ?thesis
    using saved_keeps [OF assms(1)
        cancel_order_result [OF surjective_pairing, of u order_id now s] assms(2,3)]
    by simp
qed

lemma requests_keep:
  assumes "distinct (map ord_id (orders s))"
    and "x \<in> set (orders s)" and "terminal (ord_status x)"
  shows "distinct (map ord_id (orders (requests st rs s))) \<and> x \<in> set (orders (requests st rs s))"
  using assms
proof (induction rs arbitrary: s)
  case Nil
  then show ?case by simp
next
  case (Cons r rs)
  from request_keeps [OF Cons.prems, of st r]
  show ?case using Cons.IH [of "request st r s"] Cons.prems(3) by simp
qed

lemma sole_by_id:
  assumes "distinct (map ord_id xs)" and "x \<in> set xs"
  shows "filter (\<lambda>y. ord_id y = ord_id x) xs = [x]"
  using assms
proof (induction xs)
  case Nil
  then show ?case by simp
next
  case (Cons a xs)
  show ?case
  proof (cases "a = x")
    case True
    have "ord_id x \<notin> set (map ord_id xs)"
      using Cons.prems(1) True by simp
    then have "\<forall>y\<in>set xs. ord_id y \<noteq> ord_id x"
      by (metis image_eqI set_map)
    then have "filter (\<lambda>y. ord_id y = ord_id x) xs = []"
      by (simp add: filter_empty_conv)
    with True show ?thesis by simp
  next
    case False
    with Cons.prems have "x \<in> set xs" "ord_id a \<noteq> ord_id x" by auto
    with Cons show ?thesis by simp
  qed
qed


lemma not_pending_rows:
  assumes "distinct (map ord_id (orders s))" and "x \<in> set (orders s)"
    and "ord_status x \<noteq> PENDING"
    and "scalar_one_or_none (user_order_rows (ord_id x) u s) = Inr (Some y)"
  shows "ord_status y \<noteq> PENDING"
proof -
  have "y \<in> set (user_order_rows (ord_id x) u s)"
    using assms(4) by (rule scalar_one_or_none_Some)
  then have "y \<in> set (orders s) \<and> ord_id y = ord_id x"
    by (rule user_order_rows_subset)
  then have "y = x"
    using distinct_ids_eq [OF assms(1) _ assms(2)] by simp
  with assms(3) show ?thesis by simp
qed

lemma update_order_not_pending:
  assumes "distinct (map ord_id (orders s))" and "x \<in> set (orders s)"
    and "ord_status x \<noteq> PENDING"
  shows "isl (fst (update_order u (ord_id x) order_update s))
     \<and> snd (update_order u (ord_id x) order_update s) = s"
proof (cases "scalar_one_or_none (user_order_rows (ord_id x) u s)")
  case (Inl e)
  then show ?thesis by (simp add: update_order_def)
next
  case (Inr found)
  show ?thesis
  proof (cases found)
    case None
    with Inr show ?thesis by (simp add: update_order_def)
  next
    case (Some y)
    with Inr not_pending_rows [OF assms, of u y] show ?thesis
      by (simp add: update_order_def)
  qed
qed

lemma cancel_order_not_pending:
  assumes "distinct (map ord_id (orders s))" and "x \<in> set (orders s)"
    and "ord_status x \<noteq> PENDING"
  shows "isl (fst (cancel_order u (ord_id x) now s))
     \<and> snd (cancel_order u (ord_id x) now s) = s"
proof (cases "scalar_one_or_none (user_order_rows (ord_id x) u s)")
  case (Inl e)
  then show ?thesis by (simp add: cancel_order_def)
next
  case (Inr found)
  show ?thesis
  proof (cases found)
    case None
    with Inr show ?thesis by (simp add: cancel_order_def)
  next
    case (Some y)
    with Inr not_pending_rows [OF assms, of u y] show ?thesis
      by (simp add: cancel_order_def)
  qed
qed

text \<open>
  Claim C8. In a table of orders with distinct ids, an order in a terminal status
  (executed, cancelled, failed) is still the one row under its id, unchanged, after any
  sequence of create, quick-trade, update and cancel requests: in particular it never
  returns to pending. \<open>update_order\<close> and \<open>cancel_order\<close> fail on every order
  whose status is not pending, whoever calls, and leave the tables as they were; for
  the owner of the order the failure is the status 400 of the pending check.
\<close>

theorem terminal_orders_stay:
  assumes "distinct (map ord_id (orders s))" and "x \<in> set (orders s)"
  shows
    "(terminal (ord_status x) \<longrightarrow>
        filter (\<lambda>y. ord_id y = ord_id x) (orders (requests st rs s)) = [x])
     \<and> (ord_status x \<noteq> PENDING \<longrightarrow>
        isl (fst (update_order u (ord_id x) order_update s))
        \<and> snd (update_order u (ord_id x) order_update s) = s
        \<and> isl (fst (cancel_order u (ord_id x) now s))
        \<and> snd (cancel_order u (ord_id x) now s) = s)
     \<and> (ord_status x \<noteq> PENDING \<and> user_order_rows (ord_id x) u s = [x]
          \<and> opt_gt0 (ou_price order_update) \<and> opt_gt0 (ou_stop_price order_update)
          \<and> opt_gt0 (ou_quantity order_update) \<longrightarrow>
        update_order u (ord_id x) order_update s
          = (Inl (HTTPException 400 Can_only_update_pending_orders), s)
        \<and> cancel_order u (ord_id x) now s
          = (Inl (HTTPException 400 Can_only_cancel_pending_orders), s))"
proof (intro conjI impI)
  assume t: "terminal (ord_status x)"
  from requests_keep [OF assms t, of st rs]
  show "filter (\<lambda>y. ord_id y = ord_id x) (orders (requests st rs s)) = [x]"
    by (simp add: sole_by_id)
next
  assume n: "ord_status x \<noteq> PENDING"
  from update_order_not_pending [OF assms n, of u order_update]
  show "isl (fst (update_order u (ord_id x) order_update s))"
    and "snd (update_order u (ord_id x) order_update s) = s" by simp_all
  from cancel_order_not_pending [OF assms n, of u now]
  show "isl (fst (cancel_order u (ord_id x) now s))"
    and "snd (cancel_order u (ord_id x) now s) = s" by simp_all
next
  assume a: "ord_status x \<noteq> PENDING \<and> user_order_rows (ord_id x) u s = [x]
          \<and> opt_gt0 (ou_price order_update) \<and> opt_gt0 (ou_stop_price order_update)
          \<and> opt_gt0 (ou_quantity order_update)"
  then show "update_order u (ord_id x) order_update s
          = (Inl (HTTPException 400 Can_only_update_pending_orders), s)"
    by (simp add: update_order_def scalar_one_or_none_def)
  from a show "cancel_order u (ord_id x) now s
          = (Inl (HTTPException 400 Can_only_cancel_pending_orders), s)"
    by (simp add: cancel_order_def scalar_one_or_none_def)
qed

text \<open>
  An executed order 3 next to a pending order 4: a cancel and an update of order 3, a
  quick trade and a create under the taken id 3 leave order 3 as it was.
\<close>

theorem terminal_orders_stay_witness:
  "filter (\<lambda>y. ord_id y = 3)
     (orders (requests default_settings
        [Cancel_order 1 3 9,
         Update_order 1 3 \<lparr>ou_price = Some 1, ou_stop_price = None, ou_quantity = None\<rparr>,
         Quick_trade 1 \<lparr>qt_portfolio_id = 1, qt_asset_symbol = ''btc'', qt_side = BUY,
            qt_amount_eur = None, qt_quantity = Some 1\<rparr> 5 9,
         Create_order 1 \<lparr>oc_portfolio_id = 1, oc_asset_symbol = ''btc'',
            oc_order_type = BUY, oc_quantity = 1/10, oc_price = None,
            oc_stop_price = None\<rparr> 3 9]
        (ledger 10000 [] [(btc_order 3 BUY (1/10) None)\<lparr>ord_status := EXECUTED\<rparr>,
                          btc_order 4 BUY (1/10) None])))
     = [(btc_order 3 BUY (1/10) None)\<lparr>ord_status := EXECUTED\<rparr>]
   \<and> update_order 1 3 \<lparr>ou_price = Some 1, ou_stop_price = None, ou_quantity = None\<rparr>
        (ledger 10000 [] [(btc_order 3 BUY (1/10) None)\<lparr>ord_status := EXECUTED\<rparr>,
                          btc_order 4 BUY (1/10) None])
     = (Inl (HTTPException 400 Can_only_update_pending_orders),
        ledger 10000 [] [(btc_order 3 BUY (1/10) None)\<lparr>ord_status := EXECUTED\<rparr>,
                          btc_order 4 BUY (1/10) None])
   \<and> cancel_order 1 3 9
        (ledger 10000 [] [(btc_order 3 BUY (1/10) None)\<lparr>ord_status := EXECUTED\<rparr>,
                          btc_order 4 BUY (1/10) None])
     = (Inl (HTTPException 400 Can_only_cancel_pending_orders),
        ledger 10000 [] [(btc_order 3 BUY (1/10) None)\<lparr>ord_status := EXECUTED\<rparr>,
                          btc_order 4 BUY (1/10) None])"
proof -
  let ?x = "(btc_order 3 BUY (1/10) None)\<lparr>ord_status := EXECUTED\<rparr>"
  let ?s = "ledger 10000 [] [?x, btc_order 4 BUY (1/10) None]"
  let ?upd = "\<lparr>ou_price = Some 1, ou_stop_price = None, ou_quantity = None\<rparr>"
  let ?rs = "[Cancel_order 1 3 9,
         Update_order 1 3 ?upd,
         Quick_trade 1 \<lparr>qt_portfolio_id = 1, qt_asset_symbol = ''btc'', qt_side = BUY,
            qt_amount_eur = None, qt_quantity = Some 1\<rparr> 5 9,
         Create_order 1 \<lparr>oc_portfolio_id = 1, oc_asset_symbol = ''btc'',
            oc_order_type = BUY, oc_quantity = 1/10, oc_price = None,
            oc_stop_price = None\<rparr> 3 9]"
  have d: "distinct (map ord_id (orders ?s))"
    by (simp add: ledger_def btc_order_def new_order_def)
  have m: "?x \<in> set (orders ?s)"
    by (simp add: ledger_def)
  have i: "ord_id ?x = 3"
    by (simp add: btc_order_def new_order_def)
  have t: "terminal (ord_status ?x)"
    by (simp add: terminal_def)
  have n: "ord_status ?x \<noteq> PENDING \<and> user_order_rows (ord_id ?x) 1 ?s = [?x]
          \<and> opt_gt0 (ou_price ?upd) \<and> opt_gt0 (ou_stop_price ?upd)
          \<and> opt_gt0 (ou_quantity ?upd)"
    by (simp add: user_order_rows_def ledger_def btc_order_def new_order_def
        main_portfolio_def opt_gt0_def)
  note th = terminal_orders_stay [OF d m, of default_settings ?rs 1 ?upd 9]
  from th [THEN conjunct1, THEN mp, OF t]
    th [THEN conjunct2, THEN conjunct2, THEN mp, OF n]
  show ?thesis
    unfolding i by (intro conjI) simp_all
qed

section \<open>Risk monitor: concentration\<close>






section \<open>Quick trade\<close>














end
